theory Spec2Isabelle
  imports Main "HOL-Library.Sublist"
begin

section \<open>The API client of \<open>src/lib/api.js\<close>\<close>

text \<open>
  The client is one asynchronous function, \<open>request\<close>, behind four exported verbs
  (\<open>get\<close>, \<open>post\<close>, \<open>patch\<close>, \<open>del\<close>) and a set of resource facades. Its
  collaborators are the configuration store, the platform's \<open>fetch\<close>, one abort timer
  and the clock. They are modelled as an explicit \<open>world\<close> that every function takes and
  returns, so that the number of network calls, the backoff waits and the state of the
  timer can be read off the result. An exception is a value \<open>Inl e\<close> of a sum type.
\<close>

subsection \<open>JavaScript values\<close>

text \<open>
  Strings are byte strings (the UTF-8 encoding of the JavaScript string). A number is
  given by the text that \<open>Number.prototype.toString\<close> prints for it: \<open>10\<close> is
  \<open>JNum ''10''\<close>, \<open>0.5\<close> is \<open>JNum ''0.5''\<close>, \<open>1e21\<close> is \<open>JNum ''1e+21''\<close>,
  \<open>NaN\<close> is \<open>JNum ''NaN''\<close>, and both zeros are \<open>JNum ''0''\<close>. An object is the list
  of its own properties in the order in which they were created. \<open>JBigInt\<close> stands for
  the values that \<open>JSON.stringify\<close> refuses.
\<close>

datatype jsval =
    JUndefined
  | JNull
  | JBool bool
  | JNum string
  | JBigInt int
  | JStr string
  | JArr "jsval list"
  | JObj "(string \<times> jsval) list"

function digits :: "nat \<Rightarrow> string" where
  "digits n = (if n < 10 then [''0123456789'' ! n]
               else digits (n div 10) @ [''0123456789'' ! (n mod 10)])"
  by pat_completeness auto
termination
  by (relation "measure id") auto

declare digits.simps [simp del]

definition decimal :: "int \<Rightarrow> string" where
  "decimal i = (if i < 0 then CHR ''-'' # digits (nat (- i)) else digits (nat i))"

fun join :: "string \<Rightarrow> string list \<Rightarrow> string" where
  "join sep [] = []"
| "join sep [x] = x"
| "join sep (x # y # ys) = x @ sep @ join sep (y # ys)"

text \<open>\<open>String(v)\<close>, also what a template literal and the \<open>Error\<close> constructor apply.\<close>

fun ToString :: "jsval \<Rightarrow> string" where
  "ToString JUndefined = ''undefined''"
| "ToString JNull = ''null''"
| "ToString (JBool b) = (if b then ''true'' else ''false'')"
| "ToString (JNum s) = s"
| "ToString (JBigInt n) = decimal n"
| "ToString (JStr s) = s"
| "ToString (JArr xs) =
     join '','' (map (\<lambda>x. if x = JUndefined \<or> x = JNull then [] else ToString x) xs)"
| "ToString (JObj kvs) = ''[object Object]''"

text \<open>The values that \<open>!v\<close>, \<open>v || w\<close> and \<open>v && w\<close> take for true.\<close>

fun truthy :: "jsval \<Rightarrow> bool" where
  "truthy JUndefined = False"
| "truthy JNull = False"
| "truthy (JBool b) = b"
| "truthy (JNum s) = (s \<noteq> ''0'' \<and> s \<noteq> ''NaN'')"
| "truthy (JBigInt n) = (n \<noteq> 0)"
| "truthy (JStr s) = (s \<noteq> [])"
| "truthy (JArr xs) = True"
| "truthy (JObj kvs) = True"

text \<open>
  \<open>v?.k\<close> for the keys the source reads (\<open>data\<close>, \<open>error\<close>, \<open>message\<close>,
  \<open>details\<close>): the own property of an object, \<open>undefined\<close> on everything else.
\<close>

fun get_prop :: "jsval \<Rightarrow> string \<Rightarrow> jsval" where
  "get_prop (JObj kvs) k = (case map_of kvs k of None \<Rightarrow> JUndefined | Some v \<Rightarrow> v)"
| "get_prop v k = JUndefined"

text \<open>Assignment of one property: an existing key keeps its place, a new one goes last.\<close>

fun set_prop :: "(string \<times> 'a) list \<Rightarrow> string \<times> 'a \<Rightarrow> (string \<times> 'a) list" where
  "set_prop [] (k, v) = [(k, v)]"
| "set_prop ((k', v') # ps) (k, v) =
     (if k' = k then (k, v) # ps else (k', v') # set_prop ps (k, v))"

text \<open>
  The order in which the own properties of an object are enumerated (by
  \<open>Object.entries\<close>, by a spread and by \<open>JSON.stringify\<close>): first the keys that are
  array indices (the decimal text, without leading zeros, of an integer up to
  \<open>2^32 - 2\<close>) in ascending numeric order, then the other keys in the order of their
  creation.
\<close>

definition digit_value :: "string \<Rightarrow> nat" where
  "digit_value s = foldl (\<lambda>a c. 10 * a + (of_char c - 48)) 0 s"

definition index_of :: "string \<Rightarrow> nat option" where
  "index_of k =
     (if k \<noteq> [] \<and> list_all (\<lambda>c. c \<in> set ''0123456789'') k
         \<and> (k = ''0'' \<or> hd k \<noteq> CHR ''0'') \<and> digit_value k \<le> 4294967294
      then Some (digit_value k) else None)"

definition own_entries :: "(string \<times> 'a) list \<Rightarrow> (string \<times> 'a) list" where
  "own_entries kvs =
     sort_key (\<lambda>(k, v). case index_of k of None \<Rightarrow> 0 | Some n \<Rightarrow> n)
              (filter (\<lambda>(k, v). index_of k \<noteq> None) kvs)
     @ filter (\<lambda>(k, v). index_of k = None) kvs"

text \<open>The object literal \<open>{ ...a, ...b }\<close>.\<close>

definition spread :: "(string \<times> 'a) list \<Rightarrow> (string \<times> 'a) list \<Rightarrow> (string \<times> 'a) list" where
  "spread a b = foldl set_prop a (own_entries b)"

text \<open>\<open>s.includes(t)\<close>.\<close>

definition str_includes :: "string \<Rightarrow> string \<Rightarrow> bool" where
  "str_includes s t = sublist t s"

subsection \<open>\<open>JSON.stringify\<close>\<close>

definition hex_lower :: "nat \<Rightarrow> char" where
  "hex_lower n = ''0123456789abcdef'' ! n"

definition quote_char :: "char \<Rightarrow> string" where
  "quote_char c =
     (if c = CHR 0x22 then [CHR 0x5C, CHR 0x22]
      else if c = CHR 0x5C then [CHR 0x5C, CHR 0x5C]
      else if c = CHR 0x08 then [CHR 0x5C, CHR ''b'']
      else if c = CHR 0x0C then [CHR 0x5C, CHR ''f'']
      else if c = CHR 0x0A then [CHR 0x5C, CHR ''n'']
      else if c = CHR 0x0D then [CHR 0x5C, CHR ''r'']
      else if c = CHR 0x09 then [CHR 0x5C, CHR ''t'']
      else if (of_char c :: nat) < 32
        then [CHR 0x5C, CHR ''u'', CHR ''0'', CHR ''0'',
              hex_lower (of_char c div 16), hex_lower (of_char c mod 16)]
      else [c])"

definition quote :: "string \<Rightarrow> string" where
  "quote s = [CHR 0x22] @ concat (map quote_char s) @ [CHR 0x22]"

text \<open>
  The text of a value. A property whose value is \<open>undefined\<close> is left out of an object,
  an \<open>undefined\<close> element of an array is written \<open>null\<close>, and so is a number
  that is not finite.
\<close>

fun stringify :: "jsval \<Rightarrow> string" where
  "stringify JUndefined = ''null''"
| "stringify JNull = ''null''"
| "stringify (JBool b) = (if b then ''true'' else ''false'')"
| "stringify (JNum s) =
     (if s = ''NaN'' \<or> s = ''Infinity'' \<or> s = ''-Infinity'' then ''null'' else s)"
| "stringify (JBigInt n) = decimal n"
| "stringify (JStr s) = quote s"
| "stringify (JArr xs) = ''['' @ join '','' (map stringify xs) @ '']''"
| "stringify (JObj kvs) =
     ''{'' @ join '','' (map (\<lambda>(k, t). quote k @ '':'' @ t)
                         (own_entries
                            (concat (map (\<lambda>(k, v). if v = JUndefined then []
                                                    else [(k, stringify v)]) kvs)))) @ ''}''"

fun has_bigint :: "jsval \<Rightarrow> bool" where
  "has_bigint (JBigInt n) = True"
| "has_bigint (JArr xs) = list_ex has_bigint xs"
| "has_bigint (JObj kvs) = list_ex (\<lambda>(k, v). has_bigint v) kvs"
| "has_bigint v = False"

subsection \<open>Errors\<close>

text \<open>
  What JavaScript can throw here: an \<open>ApiError\<close> (message, statusCode, details) or any
  other error object, of which the code reads the name and the message (the platform's
  errors carry no \<open>statusCode\<close>).
\<close>

datatype thrown =
    ApiError string nat jsval
  | JsError string string

fun instanceof_ApiError :: "thrown \<Rightarrow> bool" where
  "instanceof_ApiError (ApiError m c d) = True"
| "instanceof_ApiError (JsError n m) = False"

fun error_name :: "thrown \<Rightarrow> string" where
  "error_name (ApiError m c d) = ''ApiError''"
| "error_name (JsError n m) = n"

fun error_message :: "thrown \<Rightarrow> string" where
  "error_message (ApiError m c d) = m"
| "error_message (JsError n m) = m"

fun statusCode :: "thrown \<Rightarrow> nat option" where
  "statusCode (ApiError m c d) = Some c"
| "statusCode (JsError n m) = None"

fun details :: "thrown \<Rightarrow> jsval" where
  "details (ApiError m c d) = d"
| "details (JsError n m) = JUndefined"

text \<open>
  \<open>new ApiError(message, statusCode, details = null)\<close>: the default stands in for an
  argument that is \<open>undefined\<close>, and \<open>Error\<close> keeps the message as a string.
\<close>

definition new_ApiError :: "jsval \<Rightarrow> nat \<Rightarrow> jsval \<Rightarrow> thrown" where
  "new_ApiError message code dets =
     ApiError (if message = JUndefined then [] else ToString message) code
              (if dets = JUndefined then JNull else dets)"

text \<open>\<open>JSON.stringify(v)\<close>: a \<open>TypeError\<close>, \<open>undefined\<close> or the text.\<close>

definition JSON_stringify :: "jsval \<Rightarrow> thrown + string option" where
  "JSON_stringify v =
     (if has_bigint v then Inl (JsError ''TypeError'' ''Do not know how to serialize a BigInt'')
      else if v = JUndefined then Inr None
      else Inr (Some (stringify v)))"

subsection \<open>Configuration store\<close>

text \<open>
  What \<open>config.get\<close> returns for the three keys the client reads; \<open>None\<close> is
  \<open>undefined\<close>. \<open>getApiConfig\<close> reads them afresh on every request.
\<close>

record config =
  apiKey :: "string option"
  apiUrl :: "string option"
  tenant :: "string option"

text \<open>\<open>!s\<close> is false for a string that is present and not empty.\<close>

fun present :: "string option \<Rightarrow> bool" where
  "present None = False"
| "present (Some s) = (s \<noteq> [])"

text \<open>A string or \<open>undefined\<close> inside a template literal.\<close>

fun template :: "string option \<Rightarrow> string" where
  "template None = ''undefined''"
| "template (Some s) = s"

subsection \<open>The platform: responses, \<open>fetch\<close>, the abort timer, the clock\<close>

text \<open>
  A response as the code reads it: the status, the two headers it asks for, and what
  \<open>response.json()\<close> and \<open>response.text()\<close> settle to.
\<close>

record response =
  status :: nat
  content_type :: "string option"
  retry_after :: "string option"
  json_body :: "thrown + jsval"
  text_body :: "thrown + string"

text \<open>\<open>response.ok\<close>, by the Fetch standard.\<close>

definition ok :: "response \<Rightarrow> bool" where
  "ok r = (200 \<le> status r \<and> status r \<le> 299)"

text \<open>
  What the network does with one call of \<open>fetch\<close>, left alone: after so many
  milliseconds the promise resolves with a response, or rejects with an error of the
  given name and message.
\<close>

datatype behaviour =
    Resolves nat response
  | Rejects nat string string

fun latency :: "behaviour \<Rightarrow> nat" where
  "latency (Resolves d r) = d"
| "latency (Rejects d n m) = d"

fun outcome :: "behaviour \<Rightarrow> thrown + response" where
  "outcome (Resolves d r) = Inr r"
| "outcome (Rejects d n m) = Inl (JsError n m)"

text \<open>The options object of \<open>request\<close> and of \<open>fetch\<close>.\<close>

record options =
  method' :: string
  body :: "string option"
  headers :: "(string \<times> string) list"
  timeout :: "nat option"

text \<open>
  The state around one call: the clock (milliseconds), the pending abort timer (the time
  at which it fires), whether the controller's signal is aborted, and two logs: every
  call of \<open>fetch\<close> with its arguments, and every backoff wait.
\<close>

record world =
  now :: nat
  timer :: "nat option"
  aborted :: bool
  fetched :: "(string \<times> options) list"
  slept :: "nat list"

definition AbortError :: thrown where
  "AbortError = JsError ''AbortError'' ''This operation was aborted''"

definition new_AbortController :: "world \<Rightarrow> world" where
  "new_AbortController w = w\<lparr>aborted := False\<rparr>"

text \<open>\<open>setTimeout(() => controller.abort(), ms)\<close>.\<close>

definition setTimeout :: "nat \<Rightarrow> world \<Rightarrow> world" where
  "setTimeout ms w = w\<lparr>timer := Some (now w + ms)\<rparr>"

definition clearTimeout :: "world \<Rightarrow> world" where
  "clearTimeout w = w\<lparr>timer := None\<rparr>"

text \<open>Time passes; a pending timer whose time has come fires and aborts the signal.\<close>

definition elapse :: "nat \<Rightarrow> world \<Rightarrow> world" where
  "elapse d w =
     (case timer w of
        None \<Rightarrow> w\<lparr>now := now w + d\<rparr>
      | Some t \<Rightarrow>
          if t \<le> now w + d then w\<lparr>now := now w + d, timer := None, aborted := True\<rparr>
          else w\<lparr>now := now w + d\<rparr>)"

definition sleep :: "nat \<Rightarrow> world \<Rightarrow> world" where
  "sleep ms w = (elapse ms w)\<lparr>slept := slept w @ [ms]\<rparr>"

text \<open>
  \<open>await fetch(url, fetchOptions)\<close> under the controller's signal. The network's
  behaviour at the n-th call is \<open>env n\<close>. A signal that is already aborted rejects the
  call at once; a timer that fires before the network settles (a tie goes to the timer)
  aborts the call at that moment; otherwise the network's outcome stands.
\<close>

definition fetch ::
  "(nat \<Rightarrow> behaviour) \<Rightarrow> string \<Rightarrow> options \<Rightarrow> world \<Rightarrow> (thrown + response) \<times> world" where
  "fetch env url fetchOptions w =
     (let b = env (length (fetched w));
          w1 = w\<lparr>fetched := fetched w @ [(url, fetchOptions)]\<rparr>
      in if aborted w1 then (Inl AbortError, w1)
         else case timer w1 of
                None \<Rightarrow> (outcome b, w1\<lparr>now := now w1 + latency b\<rparr>)
              | Some t \<Rightarrow>
                  if t \<le> now w1 + latency b
                  then (Inl AbortError, w1\<lparr>now := max (now w1) t, timer := None, aborted := True\<rparr>)
                  else (outcome b, w1\<lparr>now := now w1 + latency b\<rparr>))"

subsection \<open>\<open>request\<close>\<close>

definition DEFAULT_TIMEOUT :: nat where
  "DEFAULT_TIMEOUT = 30000"

definition MAX_RETRIES :: nat where
  "MAX_RETRIES = 3"

definition RETRY_DELAY :: nat where
  "RETRY_DELAY = 1000"

text \<open>
  Lines 76 to 82: the body is read as JSON when the content type is present and contains
  \<open>application/json\<close>, as text otherwise.
\<close>

definition read_body :: "response \<Rightarrow> thrown + jsval" where
  "read_body r =
     (if present (content_type r) \<and> str_includes (template (content_type r)) ''application/json''
      then json_body r
      else map_sum id JStr (text_body r))"

text \<open>\<open>response.headers.get('retry-after') || 60\<close>, as the template prints it.\<close>

definition retryAfter :: "response \<Rightarrow> string" where
  "retryAfter r = (if present (retry_after r) then template (retry_after r) else ''60'')"

text \<open>\<open>data?.error?.message || data?.message || `HTTP ${response.status}`\<close>.\<close>

definition message_of :: "jsval \<Rightarrow> nat \<Rightarrow> jsval" where
  "message_of data st =
     (if truthy (get_prop (get_prop data ''error'') ''message'')
        then get_prop (get_prop data ''error'') ''message''
      else if truthy (get_prop data ''message'') then get_prop data ''message''
      else JStr (''HTTP '' @ digits st))"

text \<open>
  Lines 71 to 100, the body of the \<open>try\<close> block: one call of \<open>fetch\<close>, the timer
  cleared once it has resolved, the body read, the status classified. \<open>Inl\<close> is what
  the block throws, \<open>Inr\<close> what it returns.
\<close>

definition attempt_try ::
  "(nat \<Rightarrow> behaviour) \<Rightarrow> string \<Rightarrow> options \<Rightarrow> world \<Rightarrow> (thrown + jsval) \<times> world" where
  "attempt_try env url fetchOptions w =
     (case fetch env url fetchOptions w of
        (Inl e, w1) \<Rightarrow> (Inl e, w1)
      | (Inr r, w1) \<Rightarrow>
          (let w2 = clearTimeout w1 in
           case read_body r of
             Inl e \<Rightarrow> (Inl e, w2)
           | Inr data \<Rightarrow>
               if status r = 429
                 then (Inl (new_ApiError
                         (JStr (''Rate limited. Try again in '' @ retryAfter r @ '' seconds.''))
                         429 JUndefined), w2)
               else if \<not> ok r
                 then (Inl (new_ApiError (message_of data (status r)) (status r)
                         (get_prop (get_prop data ''error'') ''details'')), w2)
               else (Inr (if get_prop data ''data'' \<noteq> JUndefined then get_prop data ''data''
                          else data), w2)))"

text \<open>Lines 125 to 132, after the loop.\<close>

definition after_loop :: "thrown option \<Rightarrow> world \<Rightarrow> (thrown + jsval) \<times> world" where
  "after_loop lastError w =
     (case lastError of
        None \<Rightarrow> (Inl (new_ApiError (JStr ''Request failed after retries'') 500 JUndefined), w)
      | Some e \<Rightarrow>
          if instanceof_ApiError e then (Inl e, w)
          else (Inl (new_ApiError
                  (JStr (if error_message e \<noteq> [] then error_message e
                         else ''Request failed after retries''))
                  (case statusCode e of Some c \<Rightarrow> if c \<noteq> 0 then c else 500 | None \<Rightarrow> 500)
                  JUndefined), w))"

text \<open>\<open>error.statusCode >= 400 && error.statusCode < 500 && error.statusCode !== 429\<close>.\<close>

definition client_error :: "thrown \<Rightarrow> bool" where
  "client_error e =
     (case statusCode e of
        None \<Rightarrow> False
      | Some c \<Rightarrow> 400 \<le> c \<and> c < 500 \<and> c \<noteq> 429)"

text \<open>Lines 69 to 123: the loop, from the given attempt on, and what follows it.\<close>

function request_loop ::
  "(nat \<Rightarrow> behaviour) \<Rightarrow> string \<Rightarrow> options \<Rightarrow> nat \<Rightarrow> thrown option \<Rightarrow> world
     \<Rightarrow> (thrown + jsval) \<times> world" where
  "request_loop env url fetchOptions attempt lastError w =
     (if attempt \<le> MAX_RETRIES then
        (case attempt_try env url fetchOptions w of
           (Inr v, w1) \<Rightarrow> (Inr v, w1)
         | (Inl error, w1) \<Rightarrow>
             (let w2 = clearTimeout w1 in
              if instanceof_ApiError error \<and> client_error error then (Inl error, w2)
              else if error_name error = ''AbortError''
                then (Inl (new_ApiError (JStr ''Request timed out'') 408 JUndefined), w2)
              else if attempt = MAX_RETRIES then after_loop (Some error) w2
              else request_loop env url fetchOptions (attempt + 1) (Some error)
                     (sleep (RETRY_DELAY * attempt) w2)))
      else after_loop lastError w)"
  by pat_completeness auto
termination
  by (relation "measure (\<lambda>(env, url, fetchOptions, attempt, lastError, w). Suc MAX_RETRIES - attempt)")
     auto

declare request_loop.simps [simp del]

text \<open>\<open>options.timeout || DEFAULT_TIMEOUT\<close>.\<close>

definition timeout_ms :: "options \<Rightarrow> nat" where
  "timeout_ms opts =
     (case timeout opts of
        None \<Rightarrow> DEFAULT_TIMEOUT
      | Some ms \<Rightarrow> if ms \<noteq> 0 then ms else DEFAULT_TIMEOUT)"

text \<open>Lines 52 to 54, the three properties written before the spread.\<close>

definition default_headers :: "config \<Rightarrow> (string \<times> string) list" where
  "default_headers cfg =
     [(''Content-Type'', ''application/json''),
      (''X-API-Key'', template (apiKey cfg)),
      (''User-Agent'', ''@erold/cli/1.0.0'')]"

text \<open>Lines 39 to 67 and the loop.\<close>

definition request ::
  "config \<Rightarrow> (nat \<Rightarrow> behaviour) \<Rightarrow> string \<Rightarrow> options \<Rightarrow> world \<Rightarrow> (thrown + jsval) \<times> world" where
  "request cfg env endpoint opts w =
     (if \<not> present (apiKey cfg)
        then (Inl (new_ApiError (JStr ''Not authenticated. Run `erold login` first.'') 401
                     JUndefined), w)
      else
        let url = template (apiUrl cfg) @ endpoint;
            hdrs = spread (default_headers cfg) (headers opts);
            w1 = setTimeout (timeout_ms opts) (new_AbortController w);
            fetchOptions = opts\<lparr>headers := hdrs\<rparr>
        in request_loop env url fetchOptions 1 None w1)"

subsection \<open>The HTTP verbs\<close>

text \<open>
  The serialisation of \<open>URLSearchParams\<close> (the URL standard's
  \<open>application/x-www-form-urlencoded\<close> serialiser): a byte is kept if it is
  alphanumeric or one of \<open>*-._\<close>, a space becomes \<open>+\<close>, anything else is
  percent-encoded; name and value are joined by \<open>=\<close>, the pairs by \<open>&\<close>.
\<close>

definition hex_upper :: "nat \<Rightarrow> char" where
  "hex_upper n = ''0123456789ABCDEF'' ! n"

definition urlencode_byte :: "char \<Rightarrow> string" where
  "urlencode_byte c =
     (if c \<in> set ''*-._0123456789ABCDEFGHIJKLMNOPQRSTUVWXYZabcdefghijklmnopqrstuvwxyz''
        then [c]
      else if c = CHR '' '' then ''+''
      else [CHR ''%'', hex_upper (of_char c div 16), hex_upper (of_char c mod 16)])"

definition urlencode :: "string \<Rightarrow> string" where
  "urlencode s = concat (map urlencode_byte s)"

definition URLSearchParams_toString :: "(string \<times> string) list \<Rightarrow> string" where
  "URLSearchParams_toString ps = join ''&'' (map (\<lambda>(k, v). urlencode k @ ''='' @ urlencode v) ps)"

text \<open>
  What a caller passes as \<open>params\<close>: nothing (or \<open>undefined\<close>), \<open>null\<close>, or an
  object.
\<close>

datatype params_arg =
    PUndefined
  | PNull
  | PObject "(string \<times> jsval) list"

text \<open>\<open>Object.entries(params)\<close>, which throws on \<open>null\<close> and \<open>undefined\<close>.\<close>

fun Object_entries :: "params_arg \<Rightarrow> thrown + (string \<times> jsval) list" where
  "Object_entries (PObject kvs) = Inr (own_entries kvs)"
| "Object_entries p = Inl (JsError ''TypeError'' ''Cannot convert undefined or null to object'')"

text \<open>
  Lines 143 to 148: the entries in order, each appended unless its value is
  \<open>undefined\<close>, \<open>null\<close> or the empty string.
\<close>

definition searchParams :: "(string \<times> jsval) list \<Rightarrow> (string \<times> string) list" where
  "searchParams params =
     foldl (\<lambda>sp (key, v).
              if v \<noteq> JUndefined \<and> v \<noteq> JNull \<and> v \<noteq> JStr [] then sp @ [(key, ToString v)]
              else sp) [] params"

text \<open>Lines 150 and 151.\<close>

definition get_url :: "string \<Rightarrow> (string \<times> jsval) list \<Rightarrow> string" where
  "get_url endpoint params =
     (let queryString = URLSearchParams_toString (searchParams params)
      in if queryString \<noteq> [] then endpoint @ ''?'' @ queryString else endpoint)"


text \<open>
  \<open>get(endpoint, params = {})\<close>: the default stands in for \<open>undefined\<close> only, and
  \<open>Object.entries\<close> runs before \<open>request\<close> is entered.
\<close>

definition get ::
  "config \<Rightarrow> (nat \<Rightarrow> behaviour) \<Rightarrow> string \<Rightarrow> params_arg \<Rightarrow> world
     \<Rightarrow> (thrown + jsval) \<times> world" where
  "get cfg env endpoint params w =
     (case Object_entries (if params = PUndefined then PObject [] else params) of
        Inl e \<Rightarrow> (Inl e, w)
      | Inr entries \<Rightarrow> request cfg env (get_url endpoint entries)
                        \<lparr>method' = ''GET'', body = None, headers = [], timeout = None\<rparr> w)"

text \<open>
  \<open>post(endpoint, data = {})\<close> and \<open>patch(endpoint, data = {})\<close>;
  \<open>JSON.stringify\<close> runs before \<open>request\<close> is entered.
\<close>

definition post ::
  "config \<Rightarrow> (nat \<Rightarrow> behaviour) \<Rightarrow> string \<Rightarrow> jsval \<Rightarrow> world \<Rightarrow> (thrown + jsval) \<times> world" where
  "post cfg env endpoint data w =
     (case JSON_stringify (if data = JUndefined then JObj [] else data) of
        Inl e \<Rightarrow> (Inl e, w)
      | Inr b \<Rightarrow> request cfg env endpoint
                  \<lparr>method' = ''POST'', body = b, headers = [], timeout = None\<rparr> w)"

definition patch ::
  "config \<Rightarrow> (nat \<Rightarrow> behaviour) \<Rightarrow> string \<Rightarrow> jsval \<Rightarrow> world \<Rightarrow> (thrown + jsval) \<times> world" where
  "patch cfg env endpoint data w =
     (case JSON_stringify (if data = JUndefined then JObj [] else data) of
        Inl e \<Rightarrow> (Inl e, w)
      | Inr b \<Rightarrow> request cfg env endpoint
                  \<lparr>method' = ''PATCH'', body = b, headers = [], timeout = None\<rparr> w)"

definition del ::
  "config \<Rightarrow> (nat \<Rightarrow> behaviour) \<Rightarrow> string \<Rightarrow> world \<Rightarrow> (thrown + jsval) \<times> world" where
  "del cfg env endpoint w =
     request cfg env endpoint \<lparr>method' = ''DELETE'', body = None, headers = [], timeout = None\<rparr> w"

subsection \<open>Resource facades\<close>

text \<open>Lines 190 to 199.\<close>

definition getTenantPath :: "config \<Rightarrow> thrown + string" where
  "getTenantPath cfg =
     (if \<not> present (tenant cfg)
        then Inl (new_ApiError
                    (JStr ''No tenant configured. Run `erold config set tenant <tenant-id>` first.'')
                    400 JUndefined)
      else Inr (''/tenants/'' @ template (tenant cfg)))"

text \<open>
  A facade method evaluates its arguments, the path first, and hands them to one of the
  verbs. The evaluated arguments are a \<open>descriptor\<close>; an argument that is left out is
  \<open>PUndefined\<close> for a params object and \<open>JUndefined\<close> for any other value.
\<close>

datatype descriptor =
    GET string params_arg
  | POST string jsval
  | PATCH string jsval
  | DELETE string

fun path :: "descriptor \<Rightarrow> string" where
  "path (GET p ps) = p"
| "path (POST p d) = p"
| "path (PATCH p d) = p"
| "path (DELETE p) = p"

datatype user_call =
    user_me
  | user_notifications params_arg
  | user_markNotificationRead jsval
  | user_markAllNotificationsRead

datatype tasks_call =
    tasks_list params_arg
  | tasks_search jsval params_arg
  | tasks_mine params_arg
  | tasks_blocked
  | tasks_get jsval
  | tasks_create jsval jsval
  | tasks_update jsval jsval
  | tasks_delete jsval
  | tasks_bulk jsval jsval
  | tasks_start jsval
  | tasks_complete jsval jsval
  | tasks_block jsval jsval
  | tasks_progress jsval jsval jsval
  | tasks_logTime jsval jsval jsval
  | tasks_comments jsval
  | tasks_addComment jsval jsval

datatype projects_call =
    projects_list params_arg
  | projects_get jsval
  | projects_create jsval
  | projects_update jsval jsval
  | projects_delete jsval
  | projects_stats jsval
  | projects_tasks jsval params_arg

datatype knowledge_call =
    knowledge_list params_arg
  | knowledge_get jsval
  | knowledge_getByCategory jsval
  | knowledge_create jsval
  | knowledge_update jsval jsval
  | knowledge_delete jsval
  | knowledge_search jsval

datatype vault_call =
    vault_list jsval
  | vault_get jsval jsval
  | vault_create jsval jsval
  | vault_update jsval jsval jsval
  | vault_delete jsval jsval

datatype techInfo_call =
    techInfo_get jsval
  | techInfo_update jsval jsval

datatype context_call =
    context_get
  | context_dashboard
  | context_stats
  | context_workload

datatype members_call =
    members_list
  | members_get jsval
  | members_invite jsval jsval
  | members_updateRole jsval jsval
  | members_remove jsval

datatype invites_call =
    invites_list
  | invites_accept jsval
  | invites_decline jsval

datatype activity_call =
    activity_list params_arg
  | activity_forTask jsval

datatype exportData_call =
    exportData_tasks jsval
  | exportData_projects jsval
  | exportData_activity jsval

datatype tenants_call =
    tenants_list
  | tenants_get jsval

datatype facade_call =
    User user_call
  | Tasks tasks_call
  | Projects projects_call
  | Knowledge knowledge_call
  | Vault vault_call
  | TechInfo techInfo_call
  | Context context_call
  | Members members_call
  | Invites invites_call
  | Activity activity_call
  | ExportData exportData_call
  | Tenants tenants_call

text \<open>The path under the tenant prefix, or the error of \<open>getTenantPath\<close>.\<close>

definition scoped :: "config \<Rightarrow> (string \<Rightarrow> descriptor) \<Rightarrow> thrown + descriptor" where
  "scoped cfg k = (case getTenantPath cfg of Inl e \<Rightarrow> Inl e | Inr p \<Rightarrow> Inr (k p))"

text \<open>A parameter with a default value: \<open>(params = {})\<close>, \<open>(role = 'member')\<close>.\<close>

definition or_empty :: "params_arg \<Rightarrow> params_arg" where
  "or_empty params = (if params = PUndefined then PObject [] else params)"

text \<open>The properties that \<open>...params\<close> copies: none for \<open>null\<close> and \<open>undefined\<close>.\<close>

fun properties :: "params_arg \<Rightarrow> (string \<times> jsval) list" where
  "properties (PObject kvs) = kvs"
| "properties p = []"

definition or_default :: "jsval \<Rightarrow> jsval \<Rightarrow> jsval" where
  "or_default v d = (if v = JUndefined then d else v)"


text \<open>Lines 206 to 315, one function for each exported object, one equation for each method.\<close>

fun user :: "config \<Rightarrow> user_call \<Rightarrow> thrown + descriptor" where
  "user cfg user_me = Inr (GET ''/me'' PUndefined)"
| "user cfg (user_notifications params) = Inr (GET ''/me/notifications'' params)"
| "user cfg (user_markNotificationRead i) =
     Inr (PATCH (''/me/notifications/'' @ ToString i) JUndefined)"
| "user cfg user_markAllNotificationsRead =
     Inr (POST ''/me/notifications/read-all'' JUndefined)"

fun tasks :: "config \<Rightarrow> tasks_call \<Rightarrow> thrown + descriptor" where
  "tasks cfg (tasks_list params) =
     scoped cfg (\<lambda>p. GET (p @ ''/tasks'') (or_empty params))"
| "tasks cfg (tasks_search query params) =
     scoped cfg (\<lambda>p. GET (p @ ''/tasks/search'')
                       (PObject (spread [(''q'', query)] (properties (or_empty params)))))"
| "tasks cfg (tasks_mine params) =
     scoped cfg (\<lambda>p. GET (p @ ''/tasks/mine'') (or_empty params))"
| "tasks cfg tasks_blocked = scoped cfg (\<lambda>p. GET (p @ ''/tasks/blocked'') PUndefined)"
| "tasks cfg (tasks_get i) = scoped cfg (\<lambda>p. GET (p @ ''/tasks/'' @ ToString i) PUndefined)"
| "tasks cfg (tasks_create projectId d) =
     scoped cfg (\<lambda>p. POST (p @ ''/projects/'' @ ToString projectId @ ''/tasks'') d)"
| "tasks cfg (tasks_update i d) =
     scoped cfg (\<lambda>p. PATCH (p @ ''/tasks/'' @ ToString i) d)"
| "tasks cfg (tasks_delete i) = scoped cfg (\<lambda>p. DELETE (p @ ''/tasks/'' @ ToString i))"
| "tasks cfg (tasks_bulk taskIds updates) =
     scoped cfg (\<lambda>p. POST (p @ ''/tasks/bulk'')
                       (JObj [(''taskIds'', taskIds), (''updates'', updates)]))"
| "tasks cfg (tasks_start i) =
     scoped cfg (\<lambda>p. POST (p @ ''/tasks/'' @ ToString i @ ''/start'') JUndefined)"
| "tasks cfg (tasks_complete i summary) =
     scoped cfg (\<lambda>p. POST (p @ ''/tasks/'' @ ToString i @ ''/complete'')
                       (JObj [(''summary'', summary)]))"
| "tasks cfg (tasks_block i reason) =
     scoped cfg (\<lambda>p. POST (p @ ''/tasks/'' @ ToString i @ ''/block'')
                       (JObj [(''reason'', reason)]))"
| "tasks cfg (tasks_progress i percent notes) =
     scoped cfg (\<lambda>p. POST (p @ ''/tasks/'' @ ToString i @ ''/progress'')
                       (JObj [(''percent'', percent), (''notes'', notes)]))"
| "tasks cfg (tasks_logTime i hours notes) =
     scoped cfg (\<lambda>p. POST (p @ ''/tasks/'' @ ToString i @ ''/log'')
                       (JObj [(''hours'', hours), (''notes'', notes)]))"
| "tasks cfg (tasks_comments i) =
     scoped cfg (\<lambda>p. GET (p @ ''/tasks/'' @ ToString i @ ''/comments'') PUndefined)"
| "tasks cfg (tasks_addComment i content) =
     scoped cfg (\<lambda>p. POST (p @ ''/tasks/'' @ ToString i @ ''/comments'')
                       (JObj [(''content'', content)]))"

fun projects :: "config \<Rightarrow> projects_call \<Rightarrow> thrown + descriptor" where
  "projects cfg (projects_list params) =
     scoped cfg (\<lambda>p. GET (p @ ''/projects'') (or_empty params))"
| "projects cfg (projects_get i) =
     scoped cfg (\<lambda>p. GET (p @ ''/projects/'' @ ToString i) PUndefined)"
| "projects cfg (projects_create d) = scoped cfg (\<lambda>p. POST (p @ ''/projects'') d)"
| "projects cfg (projects_update i d) =
     scoped cfg (\<lambda>p. PATCH (p @ ''/projects/'' @ ToString i) d)"
| "projects cfg (projects_delete i) =
     scoped cfg (\<lambda>p. DELETE (p @ ''/projects/'' @ ToString i))"
| "projects cfg (projects_stats i) =
     scoped cfg (\<lambda>p. GET (p @ ''/projects/'' @ ToString i @ ''/stats'') PUndefined)"
| "projects cfg (projects_tasks i params) =
     scoped cfg (\<lambda>p. GET (p @ ''/projects/'' @ ToString i @ ''/tasks'') (or_empty params))"

fun knowledge :: "config \<Rightarrow> knowledge_call \<Rightarrow> thrown + descriptor" where
  "knowledge cfg (knowledge_list params) =
     scoped cfg (\<lambda>p. GET (p @ ''/knowledge'') (or_empty params))"
| "knowledge cfg (knowledge_get i) =
     scoped cfg (\<lambda>p. GET (p @ ''/knowledge/'' @ ToString i) PUndefined)"
| "knowledge cfg (knowledge_getByCategory category) =
     scoped cfg (\<lambda>p. GET (p @ ''/knowledge/category/'' @ ToString category) PUndefined)"
| "knowledge cfg (knowledge_create d) = scoped cfg (\<lambda>p. POST (p @ ''/knowledge'') d)"
| "knowledge cfg (knowledge_update i d) =
     scoped cfg (\<lambda>p. PATCH (p @ ''/knowledge/'' @ ToString i) d)"
| "knowledge cfg (knowledge_delete i) =
     scoped cfg (\<lambda>p. DELETE (p @ ''/knowledge/'' @ ToString i))"
| "knowledge cfg (knowledge_search query) =
     scoped cfg (\<lambda>p. GET (p @ ''/knowledge'') (PObject [(''search'', query)]))"

fun vault :: "config \<Rightarrow> vault_call \<Rightarrow> thrown + descriptor" where
  "vault cfg (vault_list projectId) =
     scoped cfg (\<lambda>p. GET (p @ ''/projects/'' @ ToString projectId @ ''/vault'') PUndefined)"
| "vault cfg (vault_get projectId entryId) =
     scoped cfg (\<lambda>p. GET (p @ ''/projects/'' @ ToString projectId @ ''/vault/''
                            @ ToString entryId) PUndefined)"
| "vault cfg (vault_create projectId d) =
     scoped cfg (\<lambda>p. POST (p @ ''/projects/'' @ ToString projectId @ ''/vault'') d)"
| "vault cfg (vault_update projectId entryId d) =
     scoped cfg (\<lambda>p. PATCH (p @ ''/projects/'' @ ToString projectId @ ''/vault/''
                              @ ToString entryId) d)"
| "vault cfg (vault_delete projectId entryId) =
     scoped cfg (\<lambda>p. DELETE (p @ ''/projects/'' @ ToString projectId @ ''/vault/''
                               @ ToString entryId))"

fun techInfo :: "config \<Rightarrow> techInfo_call \<Rightarrow> thrown + descriptor" where
  "techInfo cfg (techInfo_get projectId) =
     scoped cfg (\<lambda>p. GET (p @ ''/projects/'' @ ToString projectId @ ''/tech-info'') PUndefined)"
| "techInfo cfg (techInfo_update projectId d) =
     scoped cfg (\<lambda>p. PATCH (p @ ''/projects/'' @ ToString projectId @ ''/tech-info'') d)"

fun context_methods :: "config \<Rightarrow> context_call \<Rightarrow> thrown + descriptor" where
  "context_methods cfg context_get = scoped cfg (\<lambda>p. GET (p @ ''/context'') PUndefined)"
| "context_methods cfg context_dashboard = scoped cfg (\<lambda>p. GET (p @ ''/dashboard'') PUndefined)"
| "context_methods cfg context_stats = scoped cfg (\<lambda>p. GET (p @ ''/stats'') PUndefined)"
| "context_methods cfg context_workload = scoped cfg (\<lambda>p. GET (p @ ''/workload'') PUndefined)"

fun members :: "config \<Rightarrow> members_call \<Rightarrow> thrown + descriptor" where
  "members cfg members_list = scoped cfg (\<lambda>p. GET (p @ ''/members'') PUndefined)"
| "members cfg (members_get uid) =
     scoped cfg (\<lambda>p. GET (p @ ''/members/'' @ ToString uid) PUndefined)"
| "members cfg (members_invite email role) =
     scoped cfg (\<lambda>p. POST (p @ ''/members/invite'')
                       (JObj [(''email'', email), (''role'', or_default role (JStr ''member''))]))"
| "members cfg (members_updateRole uid role) =
     scoped cfg (\<lambda>p. PATCH (p @ ''/members/'' @ ToString uid) (JObj [(''role'', role)]))"
| "members cfg (members_remove uid) =
     scoped cfg (\<lambda>p. DELETE (p @ ''/members/'' @ ToString uid))"

fun invites :: "config \<Rightarrow> invites_call \<Rightarrow> thrown + descriptor" where
  "invites cfg invites_list = scoped cfg (\<lambda>p. GET (p @ ''/invites'') PUndefined)"
| "invites cfg (invites_accept i) =
     Inr (POST (''/invites/'' @ ToString i @ ''/accept'') JUndefined)"
| "invites cfg (invites_decline i) =
     Inr (POST (''/invites/'' @ ToString i @ ''/decline'') JUndefined)"

fun activity :: "config \<Rightarrow> activity_call \<Rightarrow> thrown + descriptor" where
  "activity cfg (activity_list params) =
     scoped cfg (\<lambda>p. GET (p @ ''/activity'') (or_empty params))"
| "activity cfg (activity_forTask taskId) =
     scoped cfg (\<lambda>p. GET (p @ ''/tasks/'' @ ToString taskId @ ''/activity'') PUndefined)"

fun exportData :: "config \<Rightarrow> exportData_call \<Rightarrow> thrown + descriptor" where
  "exportData cfg (exportData_tasks format) =
     scoped cfg (\<lambda>p. GET (p @ ''/export/tasks'')
                       (PObject [(''format'', or_default format (JStr ''json''))]))"
| "exportData cfg (exportData_projects format) =
     scoped cfg (\<lambda>p. GET (p @ ''/export/projects'')
                       (PObject [(''format'', or_default format (JStr ''json''))]))"
| "exportData cfg (exportData_activity format) =
     scoped cfg (\<lambda>p. GET (p @ ''/export/activity'')
                       (PObject [(''format'', or_default format (JStr ''json''))]))"

fun tenants :: "config \<Rightarrow> tenants_call \<Rightarrow> thrown + descriptor" where
  "tenants cfg tenants_list = Inr (GET ''/tenants'' PUndefined)"
| "tenants cfg (tenants_get i) = Inr (GET (''/tenants/'' @ ToString i) PUndefined)"

fun descriptor_of :: "config \<Rightarrow> facade_call \<Rightarrow> thrown + descriptor" where
  "descriptor_of cfg (User c) = user cfg c"
| "descriptor_of cfg (Tasks c) = tasks cfg c"
| "descriptor_of cfg (Projects c) = projects cfg c"
| "descriptor_of cfg (Knowledge c) = knowledge cfg c"
| "descriptor_of cfg (Vault c) = vault cfg c"
| "descriptor_of cfg (TechInfo c) = techInfo cfg c"
| "descriptor_of cfg (Context c) = context_methods cfg c"
| "descriptor_of cfg (Members c) = members cfg c"
| "descriptor_of cfg (Invites c) = invites cfg c"
| "descriptor_of cfg (Activity c) = activity cfg c"
| "descriptor_of cfg (ExportData c) = exportData cfg c"
| "descriptor_of cfg (Tenants c) = tenants cfg c"

text \<open>
  The methods whose path goes through \<open>getTenantPath\<close>: all but those of
  \<open>user\<close> and \<open>tenants\<close> and two of \<open>invites\<close>.
\<close>

fun tenant_scoped :: "facade_call \<Rightarrow> bool" where
  "tenant_scoped (User c) = False"
| "tenant_scoped (Invites invites_list) = True"
| "tenant_scoped (Invites (invites_accept i)) = False"
| "tenant_scoped (Invites (invites_decline i)) = False"
| "tenant_scoped (Tenants c) = False"
| "tenant_scoped c = True"

fun perform ::
  "config \<Rightarrow> (nat \<Rightarrow> behaviour) \<Rightarrow> descriptor \<Rightarrow> world \<Rightarrow> (thrown + jsval) \<times> world" where
  "perform cfg env (GET p params) w = get cfg env p params w"
| "perform cfg env (POST p d) w = post cfg env p d w"
| "perform cfg env (PATCH p d) w = patch cfg env p d w"
| "perform cfg env (DELETE p) w = del cfg env p w"

definition facade ::
  "config \<Rightarrow> (nat \<Rightarrow> behaviour) \<Rightarrow> facade_call \<Rightarrow> world \<Rightarrow> (thrown + jsval) \<times> world" where
  "facade cfg env c w =
     (case descriptor_of cfg c of
        Inl e \<Rightarrow> (Inl e, w)
      | Inr d \<Rightarrow> perform cfg env d w)"

subsection \<open>Concrete inputs\<close>

text \<open>
  The configuration of the repository's API tests, a world in which nothing has happened
  yet, a response with a JSON content type and a given parsed body, one whose body
  fails to parse, and two networks: one that behaves the same at every call, one that
  behaves differently at the first.
\<close>

definition test_config :: config where
  "test_config = \<lparr>apiKey = Some ''erold_test_key'', apiUrl = Some ''https://api.test.com'',
                   tenant = Some ''test-tenant''\<rparr>"

definition idle :: world where
  "idle = \<lparr>now = 0, timer = None, aborted = False, fetched = [], slept = []\<rparr>"

definition json_response :: "nat \<Rightarrow> jsval \<Rightarrow> response" where
  "json_response st d =
     \<lparr>status = st, content_type = Some ''application/json'', retry_after = None,
      json_body = Inr d, text_body = Inr []\<rparr>"

definition broken_json_response :: "nat \<Rightarrow> response" where
  "broken_json_response st =
     \<lparr>status = st, content_type = Some ''application/json'', retry_after = None,
      json_body = Inl (JsError ''SyntaxError'' ''Unexpected end of JSON input''),
      text_body = Inr []\<rparr>"

definition always :: "behaviour \<Rightarrow> nat \<Rightarrow> behaviour" where
  "always b n = b"

definition first_then :: "behaviour \<Rightarrow> behaviour \<Rightarrow> nat \<Rightarrow> behaviour" where
  "first_then b c n = (if n = 0 then b else c)"

section \<open>Properties\<close>

subsection \<open>Unfolding a call on a concrete input\<close>

text \<open>The definitions of the client and of the platform, and those of the inputs.\<close>

lemmas run_defs =
  get_def get_url_def searchParams_def URLSearchParams_toString_def urlencode_def
  urlencode_byte_def post_def patch_def del_def JSON_stringify_def request_def
  default_headers_def timeout_ms_def spread_def setTimeout_def new_AbortController_def
  DEFAULT_TIMEOUT_def MAX_RETRIES_def RETRY_DELAY_def request_loop.simps attempt_try_def
  fetch_def clearTimeout_def read_body_def str_includes_def retryAfter_def message_of_def ok_def
  client_error_def sleep_def elapse_def after_loop_def new_ApiError_def AbortError_def Let_def
  own_entries_def index_of_def digit_value_def

lemmas input_defs =
  test_config_def idle_def always_def json_response_def

subsection \<open>The shape of a failure\<close>







subsection \<open>The precondition on the API key\<close>



subsection \<open>Responses that are classified\<close>

text \<open>
  C3, as amended. When the first three calls of \<open>fetch\<close> all resolve (the first within
  the timeout) with status 429 and a body that is read without error, \<open>request\<close> makes
  exactly three attempts, waits 1000 and then 2000 milliseconds between them, and throws
  \<open>ApiError("Rate limited. Try again in N seconds.", 429)\<close>, where \<open>N\<close> is the
  \<open>retry-after\<close> header of the last response, or 60 when that header is absent or
  empty.
\<close>

theorem rate_limited_three_attempts:
  assumes key: "present (apiKey cfg)"
    and net: "env (length (fetched w)) = Resolves d1 r1"
             "env (Suc (length (fetched w))) = Resolves d2 r2"
             "env (Suc (Suc (length (fetched w)))) = Resolves d3 r3"
    and fast: "d1 < timeout_ms opts"
    and st: "status r1 = 429" "status r2 = 429" "status r3 = 429"
    and rd: "read_body r1 = Inr data1" "read_body r2 = Inr data2" "read_body r3 = Inr data3"
  shows "request cfg env endpoint opts w =
           (Inl (ApiError (''Rate limited. Try again in '' @ retryAfter r3 @ '' seconds.'') 429 JNull),
            w\<lparr>now := now w + d1 + 1000 + d2 + 2000 + d3, timer := None, aborted := False,
              fetched := fetched w @ replicate 3 (template (apiUrl cfg) @ endpoint,
                                       opts\<lparr>headers := spread (default_headers cfg) (headers opts)\<rparr>),
              slept := slept w @ [1000, 2000]\<rparr>) \<and>
         retryAfter r3 = (case retry_after r3 of
                            None \<Rightarrow> ''60''
                          | Some s \<Rightarrow> if s = [] then ''60'' else s)"
  using assms
  by (simp add: request_def setTimeout_def new_AbortController_def RETRY_DELAY_def
          MAX_RETRIES_def request_loop.simps attempt_try_def sleep_def elapse_def after_loop_def
          fetch_def clearTimeout_def ok_def client_error_def new_ApiError_def Let_def numeral_3_eq_3
          retryAfter_def split: option.splits)

text \<open>The theorem at three responses 429 with the body \<open>{}\<close> and no \<open>retry-after\<close>.\<close>

theorem rate_limited_three_attempts_witness:
  "present (apiKey test_config) \<and>
   (20::nat) < timeout_ms \<lparr>method' = ''GET'', body = None, headers = [], timeout = None\<rparr> \<and>
   status (json_response 429 (JObj [])) = 429 \<and>
   read_body (json_response 429 (JObj [])) = Inr (JObj []) \<and>
   request test_config (always (Resolves 20 (json_response 429 (JObj [])))) ''/test''
       \<lparr>method' = ''GET'', body = None, headers = [], timeout = None\<rparr> idle
     = (Inl (ApiError ''Rate limited. Try again in 60 seconds.'' 429 JNull),
        \<lparr>now = 3060, timer = None, aborted = False,
         fetched = replicate 3 (''https://api.test.com/test'',
            \<lparr>method' = ''GET'', body = None, headers = default_headers test_config,
             timeout = None\<rparr>),
         slept = [1000, 2000]\<rparr>)"
proof -
  let ?r = "json_response 429 (JObj [])"
  let ?opts = "\<lparr>method' = ''GET'', body = None, headers = [], timeout = None\<rparr>"
  have k: "present (apiKey test_config)"
    by (simp add: test_config_def)
  have n: "always (Resolves 20 ?r) (length (fetched idle)) = Resolves 20 ?r"
     "always (Resolves 20 ?r) (Suc (length (fetched idle))) = Resolves 20 ?r"
     "always (Resolves 20 ?r) (Suc (Suc (length (fetched idle)))) = Resolves 20 ?r"
    by (simp_all add: always_def)
  have f: "(20::nat) < timeout_ms ?opts"
    by (simp add: timeout_ms_def DEFAULT_TIMEOUT_def)
  have s: "status ?r = 429"
    by (simp add: json_response_def)
  have b: "read_body ?r = Inr (JObj [])"
    by (simp add: read_body_def json_response_def str_includes_def)
  have ra: "retryAfter ?r = ''60''"
    by (simp add: retryAfter_def json_response_def)
  show ?thesis
    using k f s b rate_limited_three_attempts[where cfg = test_config and env = "always (Resolves 20 ?r)"
        and w = idle and endpoint = "''/test''" and opts = ?opts, OF k n f s s s b b b]
    by (simp add: ra idle_def test_config_def default_headers_def spread_def own_entries_def
          numeral_3_eq_3)
qed

text \<open>
  C3 as stated fails: three responses with status 429 whose JSON body does not parse end
  in an \<open>ApiError\<close> of status 500 that carries the parser's message, because the body
  is read (line 79) before the status is looked at (line 85).
\<close>

theorem rate_limited_unreadable_body_surfaces_500:
  "status (broken_json_response 429) = 429 \<and>
   get test_config (always (Resolves 20 (broken_json_response 429))) ''/test'' PUndefined idle
     = (Inl (ApiError ''Unexpected end of JSON input'' 500 JNull),
        \<lparr>now = 3060, timer = None, aborted = False,
         fetched = replicate 3 (''https://api.test.com/test'',
            \<lparr>method' = ''GET'', body = None, headers = default_headers test_config,
             timeout = None\<rparr>),
         slept = [1000, 2000]\<rparr>)"
  by (simp add: run_defs input_defs broken_json_response_def numeral_3_eq_3)




subsection \<open>The log of network calls\<close>

lemma fetch_fetched:
  "fetched (snd (fetch env url fo w)) = fetched w @ [(url, fo)]"
  by (simp add: fetch_def Let_def split: option.splits)

lemma attempt_try_fetched:
  "fetched (snd (attempt_try env url fo w)) = fetched w @ [(url, fo)]"
proof -
  obtain res w1 where f: "fetch env url fo w = (res, w1)"
    by (cases "fetch env url fo w")
  have "fetched w1 = fetched w @ [(url, fo)]"
    using fetch_fetched[of env url fo w] f by simp
  then show ?thesis
    by (auto simp: attempt_try_def f clearTimeout_def Let_def split: sum.splits)
qed

lemma after_loop_world: "snd (after_loop le w) = w"
  by (simp add: after_loop_def split: option.splits)

lemma sleep_fetched: "fetched (sleep ms w) = fetched w"
  by (simp add: sleep_def elapse_def split: option.splits)

lemma clearTimeout_fetched: "fetched (clearTimeout w) = fetched w"
  by (simp add: clearTimeout_def)

lemma request_loop_fetched:
  "\<exists>n. n \<le> Suc MAX_RETRIES - a \<and> (a \<le> MAX_RETRIES \<longrightarrow> 1 \<le> n) \<and>
       fetched (snd (request_loop env url fo a le w)) = fetched w @ replicate n (url, fo)"
proof (induction env url fo a le w rule: request_loop.induct)
  case (1 env url fo a le w)
  show ?case
  proof (cases "a \<le> MAX_RETRIES")
    case False
    then show ?thesis
      by (simp add: request_loop.simps after_loop_world)
  next
    case True
    obtain res w1 where at: "attempt_try env url fo w = (res, w1)"
      by (cases "attempt_try env url fo w")
    have f1: "fetched w1 = fetched w @ [(url, fo)]"
      using attempt_try_fetched[of env url fo w] at by simp
    have one: "(1::nat) \<le> Suc MAX_RETRIES - a"
      using True by simp
    show ?thesis
    proof (cases res)
      case (Inr v)
      have "fetched (snd (request_loop env url fo a le w)) = fetched w @ replicate 1 (url, fo)"
        using True at Inr f1 by (simp add: request_loop.simps)
      with one show ?thesis by blast
    next
      case (Inl err)
      show ?thesis
      proof (cases "(instanceof_ApiError err \<and> client_error err)
                     \<or> error_name err = ''AbortError'' \<or> a = MAX_RETRIES")
        case stop: True
        have "fetched (snd (request_loop env url fo a le w)) = fetched w @ replicate 1 (url, fo)"
          using True at Inl f1 stop
          by (auto simp: request_loop.simps[of env url fo a] Let_def after_loop_world
                clearTimeout_fetched)
        with one show ?thesis by blast
      next
        case go: False
        from go have ne: "a \<noteq> MAX_RETRIES" and na: "error_name err \<noteq> ''AbortError''"
          and nc: "\<not> (instanceof_ApiError err \<and> client_error err)" by auto
        let ?w = "sleep (RETRY_DELAY * a) (clearTimeout w1)"
        from "1.IH"[OF True at[symmetric] Inl refl nc na ne]
        obtain n where n: "n \<le> Suc MAX_RETRIES - (a + 1)"
          and fn: "fetched (snd (request_loop env url fo (a + 1) (Some err) ?w))
                     = fetched ?w @ replicate n (url, fo)"
          by blast
        have eq: "request_loop env url fo a le w = request_loop env url fo (a + 1) (Some err) ?w"
          using True at Inl ne na nc by (auto simp: request_loop.simps[of env url fo a] Let_def)
        have "fetched (snd (request_loop env url fo a le w))
                = fetched w @ replicate (Suc n) (url, fo)"
          using eq fn f1 by (simp add: sleep_fetched clearTimeout_fetched)
        moreover have "Suc n \<le> Suc MAX_RETRIES - a" using n True ne by simp
        ultimately show ?thesis by (metis One_nat_def Suc_le_mono le0)
      qed
    qed
  qed
qed

lemma request_fetched:
  assumes "present (apiKey cfg)"
  shows "\<exists>n. 1 \<le> n \<and> n \<le> 3 \<and>
           fetched (snd (request cfg env endpoint opts w))
             = fetched w @ replicate n (template (apiUrl cfg) @ endpoint,
                                        opts\<lparr>headers := spread (default_headers cfg) (headers opts)\<rparr>)"
proof -
  let ?url = "template (apiUrl cfg) @ endpoint"
  let ?fo = "opts\<lparr>headers := spread (default_headers cfg) (headers opts)\<rparr>"
  let ?w1 = "setTimeout (timeout_ms opts) (new_AbortController w)"
  have r: "request cfg env endpoint opts w = request_loop env ?url ?fo 1 None ?w1"
    using assms by (simp add: request_def Let_def)
  have w1: "fetched ?w1 = fetched w"
    by (simp add: setTimeout_def new_AbortController_def)
  from request_loop_fetched[of 1 env ?url ?fo None ?w1]
  obtain n where "n \<le> Suc MAX_RETRIES - 1" "1 \<le> n"
    "fetched (snd (request_loop env ?url ?fo 1 None ?w1)) = fetched ?w1 @ replicate n (?url, ?fo)"
    by (auto simp: MAX_RETRIES_def)
  then show ?thesis
    using r w1 by (auto simp: MAX_RETRIES_def)
qed

lemma request_issued:
  "\<forall>(u, fo) \<in> set (drop (length (fetched w)) (fetched (snd (request cfg env endpoint opts w)))).
     u = template (apiUrl cfg) @ endpoint \<and>
     fo = opts\<lparr>headers := spread (default_headers cfg) (headers opts)\<rparr> \<and> present (apiKey cfg)"
proof (cases "present (apiKey cfg)")
  case True
  from request_fetched[OF True, of env endpoint opts w] show ?thesis
    using True by auto
next
  case False
  then show ?thesis
    by (simp add: request_def)
qed

lemma own_entries_Nil: "own_entries [] = []"
  by (simp add: own_entries_def)

lemma spread_Nil: "spread a [] = a"
  by (simp add: spread_def own_entries_Nil)

subsection \<open>The timeout\<close>

text \<open>
  A first attempt that is still in flight when the timer fires is aborted: one call of
  \<open>fetch\<close>, no retry, status 408. After a first attempt that was answered in time with a
  status of 500 or more, the second attempt is waited for however long it takes
  (\<open>d2\<close> is arbitrary).
\<close>

lemma first_attempt_times_out:
  assumes "present (apiKey cfg)"
    and "timeout_ms opts \<le> latency (env (length (fetched w)))"
  shows "request cfg env endpoint opts w =
           (Inl (ApiError ''Request timed out'' 408 JNull),
            w\<lparr>now := now w + timeout_ms opts, timer := None, aborted := True,
              fetched := fetched w @ [(template (apiUrl cfg) @ endpoint,
                           opts\<lparr>headers := spread (default_headers cfg) (headers opts)\<rparr>)]\<rparr>)"
  using assms
  by (simp add: request_def setTimeout_def new_AbortController_def MAX_RETRIES_def
        request_loop.simps attempt_try_def fetch_def clearTimeout_def client_error_def
        new_ApiError_def AbortError_def Let_def max_def)

lemma second_attempt_has_no_timeout:
  assumes "present (apiKey cfg)"
    and "env (length (fetched w)) = Resolves d1 r1"
    and "d1 < timeout_ms opts"
    and "500 \<le> status r1"
    and "read_body r1 = Inr data1"
    and "env (Suc (length (fetched w))) = Resolves d2 r2"
    and "ok r2"
    and "read_body r2 = Inr data2"
  shows "request cfg env endpoint opts w =
           (Inr (if get_prop data2 ''data'' \<noteq> JUndefined then get_prop data2 ''data'' else data2),
            w\<lparr>now := now w + d1 + 1000 + d2, timer := None, aborted := False,
              fetched := fetched w @ replicate 2 (template (apiUrl cfg) @ endpoint,
                           opts\<lparr>headers := spread (default_headers cfg) (headers opts)\<rparr>),
              slept := slept w @ [1000]\<rparr>)"
  using assms
  by (simp add: request_def setTimeout_def new_AbortController_def MAX_RETRIES_def RETRY_DELAY_def
        request_loop.simps attempt_try_def fetch_def clearTimeout_def client_error_def ok_def
        sleep_def elapse_def new_ApiError_def Let_def numeral_2_eq_2)

text \<open>
  C5, at two inputs. The timer is set once, before the loop (line 59), and cleared as
  soon as the first attempt has settled (lines 73 and 102); nothing sets it again. A first
  attempt that is still in flight after 30 seconds is aborted and the call fails with
  \<open>ApiError("Request timed out", 408)\<close> after that one call of \<open>fetch\<close>. But when the
  first attempt is answered with status 500 after 20 milliseconds, a second attempt that
  stays in flight for 100 seconds is not cancelled: the call returns that attempt's
  payload at 101020 milliseconds.
\<close>

theorem timer_is_not_rearmed_for_retries:
  "get test_config (always (Resolves 40000 (json_response 200 (JObj [(''data'', JStr ''late'')]))))
       ''/test'' PUndefined idle
     = (Inl (ApiError ''Request timed out'' 408 JNull),
        \<lparr>now = 30000, timer = None, aborted = True,
         fetched = [(''https://api.test.com/test'',
            \<lparr>method' = ''GET'', body = None, headers = default_headers test_config,
             timeout = None\<rparr>)],
         slept = []\<rparr>) \<and>
   get test_config
       (first_then (Resolves 20 (json_response 500 (JObj [])))
                   (Resolves 100000 (json_response 200 (JObj [(''data'', JStr ''late'')]))))
       ''/test'' PUndefined idle
     = (Inr (JStr ''late''),
        \<lparr>now = 101020, timer = None, aborted = False,
         fetched = replicate 2 (''https://api.test.com/test'',
            \<lparr>method' = ''GET'', body = None, headers = default_headers test_config,
             timeout = None\<rparr>),
         slept = [1000]\<rparr>)"
  by (simp add: run_defs input_defs first_then_def numeral_2_eq_2)

subsection \<open>The response envelope\<close>

text \<open>
  C6. At any attempt of the loop, when \<open>fetch\<close> resolves with a 2xx response whose body
  is read as \<open>data\<close>, the loop, and with it \<open>request\<close>, returns at once: the value
  \<open>x\<close> when \<open>data\<close> is an object whose \<open>data\<close> property is \<open>x\<close> (no parsed JSON
  value is \<open>undefined\<close>), and \<open>data\<close> itself, unchanged, when \<open>data\<close> is an object
  without a \<open>data\<close> key or is not an object.
\<close>

theorem envelope_is_unwrapped:
  assumes "a \<le> MAX_RETRIES"
    and "fetch env url fo w = (Inr r, w1)"
    and "ok r"
    and "read_body r = Inr data"
  shows "(data = JObj kvs \<and> map_of kvs ''data'' = Some x \<and> x \<noteq> JUndefined \<longrightarrow>
            request_loop env url fo a le w = (Inr x, clearTimeout w1)) \<and>
         (data = JObj kvs \<and> map_of kvs ''data'' = None \<longrightarrow>
            request_loop env url fo a le w = (Inr data, clearTimeout w1)) \<and>
         ((\<forall>ps. data \<noteq> JObj ps) \<longrightarrow>
            request_loop env url fo a le w = (Inr data, clearTimeout w1))"
proof -
  have s: "status r \<noteq> 429"
    using assms(3) by (auto simp: ok_def)
  have np: "(\<forall>ps. data \<noteq> JObj ps) \<Longrightarrow> get_prop data ''data'' = JUndefined"
    by (cases data) auto
  show ?thesis
    using assms s np
    by (auto simp: request_loop.simps[of env url fo a] attempt_try_def Let_def)
qed

text \<open>
  The theorem at the first attempt of a call, for the bodies \<open>{"data": {"id": "123"}}\<close>
  and \<open>{"success": true}\<close> of the repository's tests and for the array \<open>[1]\<close>; the
  first of them also as the whole call \<open>get('/test')\<close>.
\<close>

theorem envelope_is_unwrapped_witness:
  "(1::nat) \<le> MAX_RETRIES \<and>
   ok (json_response 200 (JObj [(''data'', JObj [(''id'', JStr ''123'')])])) \<and>
   read_body (json_response 200 (JObj [(''data'', JObj [(''id'', JStr ''123'')])]))
     = Inr (JObj [(''data'', JObj [(''id'', JStr ''123'')])]) \<and>
   map_of [(''data'', JObj [(''id'', JStr ''123'')])] ''data'' = Some (JObj [(''id'', JStr ''123'')]) \<and>
   fst (request_loop (always (Resolves 20
            (json_response 200 (JObj [(''data'', JObj [(''id'', JStr ''123'')])]))))
          ''https://api.test.com/test''
          \<lparr>method' = ''GET'', body = None, headers = default_headers test_config, timeout = None\<rparr>
          1 None (setTimeout 30000 idle))
     = Inr (JObj [(''id'', JStr ''123'')]) \<and>
   read_body (json_response 200 (JObj [(''success'', JBool True)]))
     = Inr (JObj [(''success'', JBool True)]) \<and>
   map_of [(''success'', JBool True)] ''data'' = None \<and>
   fst (request_loop (always (Resolves 20 (json_response 200 (JObj [(''success'', JBool True)]))))
          ''https://api.test.com/test''
          \<lparr>method' = ''GET'', body = None, headers = default_headers test_config, timeout = None\<rparr>
          1 None (setTimeout 30000 idle))
     = Inr (JObj [(''success'', JBool True)]) \<and>
   read_body (json_response 200 (JArr [JNum ''1''])) = Inr (JArr [JNum ''1'']) \<and>
   fst (request_loop (always (Resolves 20 (json_response 200 (JArr [JNum ''1'']))))
          ''https://api.test.com/test''
          \<lparr>method' = ''GET'', body = None, headers = default_headers test_config, timeout = None\<rparr>
          1 None (setTimeout 30000 idle))
     = Inr (JArr [JNum ''1'']) \<and>
   fst (get test_config
          (always (Resolves 20
             (json_response 200 (JObj [(''data'', JObj [(''id'', JStr ''123'')])]))))
          ''/test'' PUndefined idle)
     = Inr (JObj [(''id'', JStr ''123'')])"
proof -
  let ?x = "JObj [(''id'', JStr ''123'')]"
  let ?d1 = "JObj [(''data'', ?x)]"
  let ?d2 = "JObj [(''success'', JBool True)]"
  let ?d3 = "JArr [JNum ''1'']"
  let ?url = "''https://api.test.com/test''"
  let ?fo = "\<lparr>method' = ''GET'', body = None, headers = default_headers test_config,
              timeout = None\<rparr>"
  let ?w = "setTimeout 30000 idle"
  let ?w1 = "idle\<lparr>timer := Some 30000, fetched := [(?url, ?fo)], now := 20\<rparr>"
  have a: "(1::nat) \<le> MAX_RETRIES"
    by (simp add: MAX_RETRIES_def)
  have f: "fetch (always (Resolves 20 (json_response 200 d))) ?url ?fo ?w
             = (Inr (json_response 200 d), ?w1)" for d
    by (simp add: fetch_def always_def setTimeout_def idle_def)
  have o: "ok (json_response 200 d)" for d
    by (simp add: ok_def json_response_def)
  have r: "read_body (json_response 200 d) = Inr d" for d
    by (simp add: read_body_def json_response_def str_includes_def)
  have m1: "map_of [(''data'', ?x)] ''data'' = Some ?x" and m2: "map_of [(''success'', JBool True)] ''data'' = None"
    by simp_all
  have e1: "request_loop (always (Resolves 20 (json_response 200 ?d1))) ?url ?fo 1 None ?w
              = (Inr ?x, clearTimeout ?w1)"
    using envelope_is_unwrapped[OF a f o r, of ?d1 "[(''data'', ?x)]" ?x None] by simp
  have e2: "request_loop (always (Resolves 20 (json_response 200 ?d2))) ?url ?fo 1 None ?w
              = (Inr ?d2, clearTimeout ?w1)"
    using envelope_is_unwrapped[OF a f o r, of ?d2 "[(''success'', JBool True)]" _ None] by simp
  have e3: "request_loop (always (Resolves 20 (json_response 200 ?d3))) ?url ?fo 1 None ?w
              = (Inr ?d3, clearTimeout ?w1)"
    using envelope_is_unwrapped[OF a f o r, of ?d3 _ _ None] by simp
  have g: "fst (get test_config (always (Resolves 20 (json_response 200 ?d1))) ''/test'' PUndefined idle)
             = Inr ?x"
    by (simp add: run_defs input_defs)
  show ?thesis
    using a o[of ?d1] r[of ?d1] r[of ?d2] r[of ?d3] m1 m2 e1 e2 e3 g by simp
qed

subsection \<open>The query string\<close>











subsection \<open>Headers\<close>

lemma issued_request:
  assumes "headers opts = []"
  shows "\<forall>(u, fo) \<in> set (drop (length (fetched w))
                              (fetched (snd (request cfg env endpoint opts w)))).
           headers fo = default_headers cfg \<and> present (apiKey cfg)"
proof -
  have "headers fo = default_headers cfg \<and> present (apiKey cfg)"
    if "(u, fo) \<in> set (drop (length (fetched w)) (fetched (snd (request cfg env endpoint opts w))))"
    for u fo
    using request_issued[of w cfg env endpoint opts] that assms
    by (auto simp: spread_Nil)
  then show ?thesis by auto
qed

lemma issued_get:
  "\<forall>(u, fo) \<in> set (drop (length (fetched w)) (fetched (snd (get cfg env endpoint params w)))).
     headers fo = default_headers cfg \<and> present (apiKey cfg)"
proof (cases "Object_entries (if params = PUndefined then PObject [] else params)")
  case (Inl e)
  then show ?thesis by (simp add: get_def)
next
  case (Inr entries)
  then show ?thesis
    using issued_request[of "\<lparr>method' = ''GET'', body = None, headers = [], timeout = None\<rparr>"
            w cfg env "get_url endpoint entries"]
    by (simp add: get_def)
qed

lemma issued_del:
  "\<forall>(u, fo) \<in> set (drop (length (fetched w)) (fetched (snd (del cfg env endpoint w)))).
     headers fo = default_headers cfg \<and> present (apiKey cfg)"
  using issued_request[of "\<lparr>method' = ''DELETE'', body = None, headers = [], timeout = None\<rparr>"
          w cfg env endpoint]
  by (simp add: del_def)

lemma issued_post:
  "\<forall>(u, fo) \<in> set (drop (length (fetched w)) (fetched (snd (post cfg env endpoint d w)))).
     headers fo = default_headers cfg \<and> present (apiKey cfg)"
proof (cases "JSON_stringify (if d = JUndefined then JObj [] else d)")
  case (Inl e)
  then show ?thesis by (simp add: post_def)
next
  case (Inr b)
  then show ?thesis
    using issued_request[of "\<lparr>method' = ''POST'', body = b, headers = [], timeout = None\<rparr>"
            w cfg env endpoint]
    by (simp add: post_def)
qed

lemma issued_patch:
  "\<forall>(u, fo) \<in> set (drop (length (fetched w)) (fetched (snd (patch cfg env endpoint d w)))).
     headers fo = default_headers cfg \<and> present (apiKey cfg)"
proof (cases "JSON_stringify (if d = JUndefined then JObj [] else d)")
  case (Inl e)
  then show ?thesis by (simp add: patch_def)
next
  case (Inr b)
  then show ?thesis
    using issued_request[of "\<lparr>method' = ''PATCH'', body = b, headers = [], timeout = None\<rparr>"
            w cfg env endpoint]
    by (simp add: patch_def)
qed

lemma issued_facade:
  "\<forall>(u, fo) \<in> set (drop (length (fetched w)) (fetched (snd (facade cfg env c w)))).
     headers fo = default_headers cfg \<and> present (apiKey cfg)"
proof (cases "descriptor_of cfg c")
  case (Inl e)
  then show ?thesis by (simp add: facade_def)
next
  case (Inr d)
  then show ?thesis
    using issued_get issued_del issued_post issued_patch
    by (cases d) (simp_all add: facade_def)
qed

text \<open>
  C9. Every call of \<open>fetch\<close> that is made through \<open>get\<close>, \<open>post\<close>, \<open>patch\<close>,
  \<open>del\<close> or a facade method, whatever the arguments and whatever the network does,
  carries exactly the three default headers: \<open>Content-Type: application/json\<close>,
  \<open>X-API-Key\<close> with the configured key (which is then present and not empty) and the
  client identifier as \<open>User-Agent\<close>. The four verbs are the only callers of
  \<open>request\<close> and pass no \<open>headers\<close> option, so no header supplied by a caller can
  remove or replace a default. With a key configured, \<open>del\<close> makes at least one such
  call.
\<close>

theorem default_headers_on_every_request:
  "default_headers cfg
     = [(''Content-Type'', ''application/json''), (''X-API-Key'', template (apiKey cfg)),
        (''User-Agent'', ''@erold/cli/1.0.0'')] \<and>
   (apiKey cfg = Some key \<longrightarrow> template (apiKey cfg) = key) \<and>
   (\<forall>(u, fo) \<in> set (drop (length (fetched w)) (fetched (snd (get cfg env endpoint params w)))).
      headers fo = default_headers cfg \<and> present (apiKey cfg)) \<and>
   (\<forall>(u, fo) \<in> set (drop (length (fetched w)) (fetched (snd (post cfg env endpoint d w)))).
      headers fo = default_headers cfg \<and> present (apiKey cfg)) \<and>
   (\<forall>(u, fo) \<in> set (drop (length (fetched w)) (fetched (snd (patch cfg env endpoint d w)))).
      headers fo = default_headers cfg \<and> present (apiKey cfg)) \<and>
   (\<forall>(u, fo) \<in> set (drop (length (fetched w)) (fetched (snd (del cfg env endpoint w)))).
      headers fo = default_headers cfg \<and> present (apiKey cfg)) \<and>
   (\<forall>(u, fo) \<in> set (drop (length (fetched w)) (fetched (snd (facade cfg env c w)))).
      headers fo = default_headers cfg \<and> present (apiKey cfg)) \<and>
   (present (apiKey cfg) \<longrightarrow>
      drop (length (fetched w)) (fetched (snd (del cfg env endpoint w))) \<noteq> [])"
proof -
  have n: "present (apiKey cfg) \<Longrightarrow>
             drop (length (fetched w)) (fetched (snd (del cfg env endpoint w))) \<noteq> []"
    using request_fetched[of cfg env endpoint
            "\<lparr>method' = ''DELETE'', body = None, headers = [], timeout = None\<rparr>" w]
    by (auto simp: del_def)
  show ?thesis
    using issued_get[of w cfg env endpoint params] issued_post[of w cfg env endpoint d]
      issued_patch[of w cfg env endpoint d] issued_del[of w cfg env endpoint]
      issued_facade[of w cfg env c] n
    by (simp add: default_headers_def)
qed

text \<open>
  The theorem at the test configuration: the call that \<open>tasks.update('7')\<close> makes, the
  call of \<open>get('/test')\<close> and those of \<open>del('/test')\<close>.
\<close>

theorem default_headers_on_every_request_witness:
  "apiKey test_config = Some ''erold_test_key'' \<and>
   present (apiKey test_config) \<and>
   (''https://api.test.com/tenants/test-tenant/tasks/7'',
    \<lparr>method' = ''PATCH'', body = Some ''{}'', headers = default_headers test_config,
     timeout = None\<rparr>)
     \<in> set (drop (length (fetched idle))
          (fetched (snd (facade test_config
             (always (Resolves 20 (json_response 200 (JObj [(''data'', JArr [])]))))
             (Tasks (tasks_update (JStr ''7'') JUndefined)) idle)))) \<and>
   headers \<lparr>method' = ''PATCH'', body = Some ''{}'', headers = default_headers test_config,
            timeout = None\<rparr>
     = [(''Content-Type'', ''application/json''), (''X-API-Key'', ''erold_test_key''),
        (''User-Agent'', ''@erold/cli/1.0.0'')] \<and>
   fetched (snd (get test_config
       (always (Resolves 20 (json_response 200 (JObj [(''data'', JArr [])]))))
       ''/test'' PUndefined idle))
     = [(''https://api.test.com/test'',
         \<lparr>method' = ''GET'', body = None,
          headers = [(''Content-Type'', ''application/json''), (''X-API-Key'', ''erold_test_key''),
                     (''User-Agent'', ''@erold/cli/1.0.0'')],
          timeout = None\<rparr>)] \<and>
   drop (length (fetched idle))
     (fetched (snd (del test_config
        (always (Resolves 20 (json_response 200 (JObj [(''data'', JArr [])])))) ''/test'' idle)))
     \<noteq> []"
proof -
  let ?env = "always (Resolves 20 (json_response 200 (JObj [(''data'', JArr [])])))"
  let ?fo = "\<lparr>method' = ''PATCH'', body = Some ''{}'', headers = default_headers test_config,
              timeout = None\<rparr>"
  note t = default_headers_on_every_request[where cfg = test_config and env = ?env and w = idle
             and key = "''erold_test_key''" and endpoint = "''/test''"
             and c = "Tasks (tasks_update (JStr ''7'') JUndefined)"]
  have a: "apiKey test_config = Some ''erold_test_key''"
    by (simp add: test_config_def)
  have k: "present (apiKey test_config)"
    by (simp add: test_config_def)
  have run: "fetched (snd (facade test_config ?env (Tasks (tasks_update (JStr ''7'') JUndefined)) idle))
               = [(''https://api.test.com/tenants/test-tenant/tasks/7'', ?fo)]"
    by (simp add: facade_def scoped_def getTenantPath_def run_defs input_defs)
  then have m: "(''https://api.test.com/tenants/test-tenant/tasks/7'', ?fo)
     \<in> set (drop (length (fetched idle))
          (fetched (snd (facade test_config ?env (Tasks (tasks_update (JStr ''7'') JUndefined)) idle))))"
    by (simp add: idle_def)
  have "template (apiKey test_config) = ''erold_test_key''"
    using t a by blast
  moreover from t m have "headers ?fo = default_headers test_config"
    by blast
  moreover from t have "default_headers test_config
     = [(''Content-Type'', ''application/json''), (''X-API-Key'', template (apiKey test_config)),
        (''User-Agent'', ''@erold/cli/1.0.0'')]"
    by blast
  ultimately have h: "headers ?fo
     = [(''Content-Type'', ''application/json''), (''X-API-Key'', ''erold_test_key''),
        (''User-Agent'', ''@erold/cli/1.0.0'')]"
    by simp
  have g: "fetched (snd (get test_config ?env ''/test'' PUndefined idle))
     = [(''https://api.test.com/test'',
         \<lparr>method' = ''GET'', body = None,
          headers = [(''Content-Type'', ''application/json''), (''X-API-Key'', ''erold_test_key''),
                     (''User-Agent'', ''@erold/cli/1.0.0'')],
          timeout = None\<rparr>)]"
    by (simp add: run_defs input_defs)
  have d: "drop (length (fetched idle)) (fetched (snd (del test_config ?env ''/test'' idle))) \<noteq> []"
    using t k by blast
  from a k m h g d show ?thesis by blast
qed

subsection \<open>The default body\<close>

text \<open>
  C10. \<open>post(endpoint)\<close> and \<open>patch(endpoint)\<close> with the body left out serialise the
  default \<open>{}\<close>: with an API key configured, every call of \<open>fetch\<close> they make (at
  least one, at most three) has the body \<open>"{}"\<close>, not an absent body.
\<close>

theorem omitted_body_is_empty_object:
  "JSON_stringify (JObj []) = Inr (Some ''{}'') \<and>
   (present (apiKey cfg) \<longrightarrow>
      (\<exists>n. 1 \<le> n \<and> n \<le> 3 \<and>
         fetched (snd (post cfg env endpoint JUndefined w))
           = fetched w @ replicate n
               (template (apiUrl cfg) @ endpoint,
                \<lparr>method' = ''POST'', body = Some ''{}'', headers = default_headers cfg,
                 timeout = None\<rparr>)) \<and>
      (\<exists>n. 1 \<le> n \<and> n \<le> 3 \<and>
         fetched (snd (patch cfg env endpoint JUndefined w))
           = fetched w @ replicate n
               (template (apiUrl cfg) @ endpoint,
                \<lparr>method' = ''PATCH'', body = Some ''{}'', headers = default_headers cfg,
                 timeout = None\<rparr>)))"
proof -
  have s: "JSON_stringify (JObj []) = Inr (Some ''{}'')"
    by (simp add: JSON_stringify_def own_entries_Nil)
  have p: "present (apiKey cfg) \<Longrightarrow>
      (\<exists>n. 1 \<le> n \<and> n \<le> 3 \<and>
         fetched (snd (post cfg env endpoint JUndefined w))
           = fetched w @ replicate n
               (template (apiUrl cfg) @ endpoint,
                \<lparr>method' = ''POST'', body = Some ''{}'', headers = default_headers cfg,
                 timeout = None\<rparr>))"
    using request_fetched[of cfg env endpoint
            "\<lparr>method' = ''POST'', body = Some ''{}'', headers = [], timeout = None\<rparr>" w]
    by (simp add: post_def s spread_Nil)
  have q: "present (apiKey cfg) \<Longrightarrow>
      (\<exists>n. 1 \<le> n \<and> n \<le> 3 \<and>
         fetched (snd (patch cfg env endpoint JUndefined w))
           = fetched w @ replicate n
               (template (apiUrl cfg) @ endpoint,
                \<lparr>method' = ''PATCH'', body = Some ''{}'', headers = default_headers cfg,
                 timeout = None\<rparr>))"
    using request_fetched[of cfg env endpoint
            "\<lparr>method' = ''PATCH'', body = Some ''{}'', headers = [], timeout = None\<rparr>" w]
    by (simp add: patch_def s spread_Nil)
  from s p q show ?thesis by blast
qed

text \<open>The theorem at \<open>post('/test')\<close> under the test configuration.\<close>

theorem omitted_body_is_empty_object_witness:
  "present (apiKey test_config) \<and>
   (\<exists>n. 1 \<le> n \<and> n \<le> 3 \<and>
      fetched (snd (post test_config
         (always (Resolves 20 (json_response 200 (JObj [(''data'', JArr [])])))) ''/test''
         JUndefined idle))
        = fetched idle @ replicate n
            (template (apiUrl test_config) @ ''/test'',
             \<lparr>method' = ''POST'', body = Some ''{}'', headers = default_headers test_config,
              timeout = None\<rparr>)) \<and>
   post test_config (always (Resolves 20 (json_response 200 (JObj [(''data'', JArr [])]))))
        ''/test'' JUndefined idle
     = (Inr (JArr []),
        \<lparr>now = 20, timer = None, aborted = False,
         fetched = [(''https://api.test.com/test'',
            \<lparr>method' = ''POST'', body = Some ''{}'', headers = default_headers test_config,
             timeout = None\<rparr>)],
         slept = []\<rparr>)"
proof -
  have k: "present (apiKey test_config)"
    by (simp add: test_config_def)
  have run: "post test_config (always (Resolves 20 (json_response 200 (JObj [(''data'', JArr [])]))))
        ''/test'' JUndefined idle
     = (Inr (JArr []),
        \<lparr>now = 20, timer = None, aborted = False,
         fetched = [(''https://api.test.com/test'',
            \<lparr>method' = ''POST'', body = Some ''{}'', headers = default_headers test_config,
             timeout = None\<rparr>)],
         slept = []\<rparr>)"
    by (simp add: run_defs input_defs)
  from k run
    omitted_body_is_empty_object[of test_config
      "always (Resolves 20 (json_response 200 (JObj [(''data'', JArr [])])))" "''/test''" idle]
  show ?thesis by blast
qed

subsection \<open>Tenant-scoped facades\<close>

lemma scoped_without_tenant:
  "\<not> present (tenant cfg) \<Longrightarrow>
     scoped cfg k = Inl (ApiError ''No tenant configured. Run `erold config set tenant <tenant-id>` first.'' 400 JNull)"
  by (simp add: scoped_def getTenantPath_def new_ApiError_def)

lemma scoped_with_tenant:
  "present (tenant cfg) \<Longrightarrow> scoped cfg k = Inr (k (''/tenants/'' @ template (tenant cfg)))"
  by (simp add: scoped_def getTenantPath_def)

text \<open>
  C8. For every facade method whose path goes through \<open>getTenantPath\<close>: without a
  tenant (\<open>undefined\<close> or the empty string) the call throws
  \<open>ApiError("No tenant configured. ...", 400)\<close> and leaves the world as it was, so no
  network call and no backoff wait has happened; with a tenant, the path handed to the
  verb starts with \<open>/tenants/{tenant}/\<close>.
\<close>

theorem tenant_scoped_facades:
  assumes "tenant_scoped c"
  shows "(\<not> present (tenant cfg) \<longrightarrow>
            facade cfg env c w
              = (Inl (ApiError
                   ''No tenant configured. Run `erold config set tenant <tenant-id>` first.''
                   400 JNull), w)) \<and>
         (present (tenant cfg) \<longrightarrow>
            (\<exists>d. descriptor_of cfg c = Inr d \<and>
                 prefix (''/tenants/'' @ template (tenant cfg) @ ''/'') (path d)))"
proof (cases c)
  case (User x) with assms show ?thesis by simp
next
  case (Tasks x) then show ?thesis
    by (cases x) (simp_all add: facade_def scoped_without_tenant scoped_with_tenant)
next
  case (Projects x) then show ?thesis
    by (cases x) (simp_all add: facade_def scoped_without_tenant scoped_with_tenant)
next
  case (Knowledge x) then show ?thesis
    by (cases x) (simp_all add: facade_def scoped_without_tenant scoped_with_tenant)
next
  case (Vault x) then show ?thesis
    by (cases x) (simp_all add: facade_def scoped_without_tenant scoped_with_tenant)
next
  case (TechInfo x) then show ?thesis
    by (cases x) (simp_all add: facade_def scoped_without_tenant scoped_with_tenant)
next
  case (Context x) then show ?thesis
    by (cases x) (simp_all add: facade_def scoped_without_tenant scoped_with_tenant)
next
  case (Members x) then show ?thesis
    by (cases x) (simp_all add: facade_def scoped_without_tenant scoped_with_tenant)
next
  case (Invites x) with assms show ?thesis
    by (cases x) (simp_all add: facade_def scoped_without_tenant scoped_with_tenant)
next
  case (Activity x) then show ?thesis
    by (cases x) (simp_all add: facade_def scoped_without_tenant scoped_with_tenant)
next
  case (ExportData x) then show ?thesis
    by (cases x) (simp_all add: facade_def scoped_without_tenant scoped_with_tenant)
next
  case (Tenants x) with assms show ?thesis by simp
qed

text \<open>The theorem at \<open>tasks.list()\<close>, without a tenant and with the tenant of the tests.\<close>

theorem tenant_scoped_facades_witness:
  "tenant_scoped (Tasks (tasks_list PUndefined)) \<and>
   \<not> present (tenant (test_config\<lparr>tenant := None\<rparr>)) \<and>
   facade (test_config\<lparr>tenant := None\<rparr>)
       (always (Resolves 20 (json_response 200 (JObj [(''data'', JArr [])]))))
       (Tasks (tasks_list PUndefined)) idle
     = (Inl (ApiError ''No tenant configured. Run `erold config set tenant <tenant-id>` first.''
               400 JNull), idle) \<and>
   present (tenant test_config) \<and>
   descriptor_of test_config (Tasks (tasks_list PUndefined))
     = Inr (GET ''/tenants/test-tenant/tasks'' (PObject [])) \<and>
   prefix (''/tenants/'' @ template (tenant test_config) @ ''/'')
          (path (GET ''/tenants/test-tenant/tasks'' (PObject [])))"
proof -
  let ?c = "Tasks (tasks_list PUndefined)"
  let ?env = "always (Resolves 20 (json_response 200 (JObj [(''data'', JArr [])])))"
  have s: "tenant_scoped ?c"
    by simp
  have n: "\<not> present (tenant (test_config\<lparr>tenant := None\<rparr>))"
    by simp
  have p: "present (tenant test_config)"
    by (simp add: test_config_def)
  have d: "descriptor_of test_config ?c = Inr (GET ''/tenants/test-tenant/tasks'' (PObject []))"
    by (simp add: scoped_def getTenantPath_def test_config_def or_empty_def)
  from tenant_scoped_facades[OF s, of "test_config\<lparr>tenant := None\<rparr>" ?env idle] n
  have a: "facade (test_config\<lparr>tenant := None\<rparr>) ?env ?c idle
     = (Inl (ApiError ''No tenant configured. Run `erold config set tenant <tenant-id>` first.''
               400 JNull), idle)"
    by blast
  from tenant_scoped_facades[OF s, of test_config] p d
  have b: "prefix (''/tenants/'' @ template (tenant test_config) @ ''/'')
            (path (GET ''/tenants/test-tenant/tasks'' (PObject [])))"
    by auto
  from s n p d a b show ?thesis by blast
qed

end
